theory Spec2Isabelle
  imports Main "HOL-Library.Word" "HOL-Library.Monad_Syntax"
begin

unbundle bit_operations_syntax

section \<open>Data model of CSDAtomics.h\<close>

text \<open>
  The header declares two wrapper structs, each with the single field \<open>value\<close>:
  \<^verbatim>\<open>struct c_sd_atomic_long { _Atomic long value; };\<close> and
  \<^verbatim>\<open>struct c_sd_atomic_bool { _Atomic bool value; };\<close>.
  The field is called \<open>long_value\<close>, respectively \<open>bool_value\<close>, here, because
  \<open>value\<close> is a reserved word of the theory language.

  The width of \<open>long\<close> depends on the platform (64 bits on LP64, 32 bits on LLP64 and
  ILP32), so the type of the field is a parameter \<open>'l\<close>, instantiated below with
  \<open>'w word\<close> for an arbitrary width \<open>'w\<close>. Concrete runs use \<open>64 word\<close>.

  An \<open>_Atomic bool\<close> occupies one byte, so its field is an \<open>8 word\<close>. Every
  operation below that writes the byte stores 0 or 1 in it.
\<close>

record 'l c_sd_atomic_long =
  long_value :: 'l

record c_sd_atomic_bool =
  bool_value :: "8 word"

text \<open>
  The functions take and return pointers to heap-allocated wrappers. The heap maps
  an address to the object \<open>malloc\<close> placed there; an address outside the domain is
  not allocated.
\<close>

type_synonym addr = nat

datatype 'l object =
    Atomic_long "'l c_sd_atomic_long"
  | Atomic_bool c_sd_atomic_bool

type_synonym 'l heap = "addr \<rightharpoonup> 'l object"

text \<open>
  Dereferencing \<open>wrapper\<close> at the struct type of the function's parameter. A pointer
  that does not point to a live object of that type gives \<open>None\<close>: the C program has
  no defined behaviour there.
\<close>

definition long_at :: "'l heap \<Rightarrow> addr \<Rightarrow> 'l c_sd_atomic_long option" where
  "long_at h wrapper =
     (case h wrapper of Some (Atomic_long c) \<Rightarrow> Some c | _ \<Rightarrow> None)"

definition bool_at :: "'l heap \<Rightarrow> addr \<Rightarrow> c_sd_atomic_bool option" where
  "bool_at h wrapper =
     (case h wrapper of Some (Atomic_bool c) \<Rightarrow> Some c | _ \<Rightarrow> None)"


section \<open>The operations of stdatomic.h, run sequentially\<close>

datatype memory_order =
    memory_order_relaxed
  | memory_order_consume
  | memory_order_acquire
  | memory_order_release
  | memory_order_acq_rel
  | memory_order_seq_cst

text \<open>
  The generic functions of \<open>stdatomic.h\<close> that the source calls are not among the
  source files. Each is one indivisible step on the atomic object; in a sequential run
  the memory order has no effect on the values. The object is passed as its current
  contents and returned as its new contents.
\<close>

text \<open>Modelled from the spec: \<open>atomic_init\<close> of \<open>stdatomic.h\<close>, which gives the object
  of a new cell its initial contents (section 4.1, create).\<close>

definition atomic_init :: "'a \<Rightarrow> 'a" where
  "atomic_init v = v"

text \<open>Modelled from the spec: \<open>atomic_load_explicit\<close> of \<open>stdatomic.h\<close>, which returns
  the current contents (section 4.1, load).\<close>

definition atomic_load_explicit :: "'a \<Rightarrow> memory_order \<Rightarrow> 'a" where
  "atomic_load_explicit obj order = obj"

text \<open>Modelled from the spec: \<open>atomic_store_explicit\<close> of \<open>stdatomic.h\<close>, which replaces
  the contents unconditionally and returns nothing (section 4.1, store).\<close>

definition atomic_store_explicit :: "'a \<Rightarrow> 'a \<Rightarrow> memory_order \<Rightarrow> 'a" where
  "atomic_store_explicit obj desired order = desired"

text \<open>Modelled from the spec: \<open>atomic_fetch_add_explicit\<close> of \<open>stdatomic.h\<close>, which
  returns the contents held before the step and leaves the sum, wrapped around at the
  width of the object (section 4.1, add: two's-complement wraparound, no error). The
  result is the pair of the returned value and the object.\<close>

definition atomic_fetch_add_explicit ::
  "'w::len word \<Rightarrow> 'w word \<Rightarrow> memory_order \<Rightarrow> 'w word \<times> 'w word" where
  "atomic_fetch_add_explicit obj arg order = (obj, obj + arg)"

text \<open>Modelled from the spec: \<open>atomic_fetch_sub_explicit\<close> of \<open>stdatomic.h\<close>, which
  returns the contents held before the step and leaves the difference, wrapped around
  as the sum is (section 4.1, sub).\<close>

definition atomic_fetch_sub_explicit ::
  "'w::len word \<Rightarrow> 'w word \<Rightarrow> memory_order \<Rightarrow> 'w word \<times> 'w word" where
  "atomic_fetch_sub_explicit obj arg order = (obj, obj - arg)"

text \<open>Modelled from the spec: \<open>atomic_compare_exchange_strong\<close> of \<open>stdatomic.h\<close>, which
  compares the contents with \<open>*expected\<close>; if they are equal it writes \<open>desired\<close> into
  the object and returns true, otherwise it writes the contents found into \<open>*expected\<close>
  and returns false. It never fails spuriously (section 4.1, compareAndExchange). The
  result is the triple of the returned flag, the object and \<open>*expected\<close>.\<close>

definition atomic_compare_exchange_strong :: "'a \<Rightarrow> 'a \<Rightarrow> 'a \<Rightarrow> bool \<times> 'a \<times> 'a" where
  "atomic_compare_exchange_strong obj expected desired =
     (if obj = expected then (True, desired, expected) else (False, obj, obj))"

text \<open>Modelled from the spec: the byte that an \<open>_Atomic bool\<close> keeps for a \<open>bool\<close> is
  fixed by the compiler, not by the source files. Section 4.2: true is encoded as 1 and
  false as 0.\<close>

definition bool_to_byte :: "bool \<Rightarrow> 8 word" where
  "bool_to_byte b = (if b then 1 else 0)"

text \<open>Modelled from the spec: the \<open>bool\<close> read back from the byte of an \<open>_Atomic bool\<close>.
  Section 4.2 gives false for the byte 0 and true for the byte 1. The functions return
  the loaded \<open>bool\<close> as it is, and C takes every non-zero value for true, so any other
  byte reads as true.\<close>

definition byte_to_bool :: "8 word \<Rightarrow> bool" where
  "byte_to_bool x = (x \<noteq> 0)"

text \<open>Modelled from the spec: \<open>atomic_fetch_add_explicit\<close> of \<open>stdatomic.h\<close> on the byte
  of an \<open>_Atomic bool\<close>. C11 gives the function a meaning on the atomic integer types
  only, and the source files do not say what it stores here. Section 4.2: the step is
  addition on a single bit, modulo 2. Adding true flips bit 0 of the stored byte (\<open>OLD
  XOR 1\<close> on the bytes 0 and 1), adding false changes nothing, and the value held before
  the step is returned.\<close>

definition atomic_fetch_add_explicit_bool ::
  "8 word \<Rightarrow> 8 word \<Rightarrow> memory_order \<Rightarrow> 8 word \<times> 8 word" where
  "atomic_fetch_add_explicit_bool obj arg order = (obj, (obj + arg) mod 2)"

text \<open>Modelled from the spec: \<open>atomic_fetch_sub_explicit\<close> of \<open>stdatomic.h\<close> on the byte
  of an \<open>_Atomic bool\<close>, which C11 leaves without a meaning as well. Section 4.2: the
  step is subtraction on a single bit, modulo 2, and the value held before the step is
  returned.\<close>

definition atomic_fetch_sub_explicit_bool ::
  "8 word \<Rightarrow> 8 word \<Rightarrow> memory_order \<Rightarrow> 8 word \<times> 8 word" where
  "atomic_fetch_sub_explicit_bool obj arg order = (obj, (obj - arg) mod 2)"


section \<open>CSDAtomics.c: the integer cell\<close>

text \<open>
  \<open>c_sd_atomic_long_create\<close> calls \<open>malloc\<close> and initialises the object it returns. The
  allocator belongs to the C library, so the address it returned is an argument:
  \<open>None\<close> is the null pointer of a failed allocation, which \<open>atomic_init\<close> then
  dereferences.
\<close>

definition c_sd_atomic_long_create ::
  "'w::len word heap \<Rightarrow> addr option \<Rightarrow> 'w word \<Rightarrow> (addr \<times> 'w word heap) option" where
  "c_sd_atomic_long_create h malloc_result v =
     (case malloc_result of
        None \<Rightarrow> None
      | Some wrapper \<Rightarrow>
          Some (wrapper, h(wrapper \<mapsto> Atomic_long \<lparr>long_value = atomic_init v\<rparr>)))"

definition c_sd_atomic_long_compare_and_exchange ::
  "'w::len word heap \<Rightarrow> addr \<Rightarrow> 'w word \<Rightarrow> 'w word \<Rightarrow> (bool \<times> 'w word heap) option" where
  "c_sd_atomic_long_compare_and_exchange h wrapper expected desired =
     (case long_at h wrapper of
        None \<Rightarrow> None
      | Some c \<Rightarrow>
          (let expected_copy = expected in
           case atomic_compare_exchange_strong (long_value c) expected_copy desired of
             (ok, obj, expected_copy') \<Rightarrow>
               Some (ok, h(wrapper \<mapsto> Atomic_long (c\<lparr>long_value := obj\<rparr>)))))"

definition c_sd_atomic_long_add ::
  "'w::len word heap \<Rightarrow> addr \<Rightarrow> 'w word \<Rightarrow> ('w word \<times> 'w word heap) option" where
  "c_sd_atomic_long_add h wrapper v =
     (case long_at h wrapper of
        None \<Rightarrow> None
      | Some c \<Rightarrow>
          (case atomic_fetch_add_explicit (long_value c) v memory_order_relaxed of
             (old, obj) \<Rightarrow> Some (old, h(wrapper \<mapsto> Atomic_long (c\<lparr>long_value := obj\<rparr>)))))"

definition c_sd_atomic_long_sub ::
  "'w::len word heap \<Rightarrow> addr \<Rightarrow> 'w word \<Rightarrow> ('w word \<times> 'w word heap) option" where
  "c_sd_atomic_long_sub h wrapper v =
     (case long_at h wrapper of
        None \<Rightarrow> None
      | Some c \<Rightarrow>
          (case atomic_fetch_sub_explicit (long_value c) v memory_order_relaxed of
             (old, obj) \<Rightarrow> Some (old, h(wrapper \<mapsto> Atomic_long (c\<lparr>long_value := obj\<rparr>)))))"

definition c_sd_atomic_long_load :: "'w::len word heap \<Rightarrow> addr \<Rightarrow> 'w word option" where
  "c_sd_atomic_long_load h wrapper =
     (case long_at h wrapper of
        None \<Rightarrow> None
      | Some c \<Rightarrow> Some (atomic_load_explicit (long_value c) memory_order_relaxed))"

definition c_sd_atomic_long_store ::
  "'w::len word heap \<Rightarrow> addr \<Rightarrow> 'w word \<Rightarrow> 'w word heap option" where
  "c_sd_atomic_long_store h wrapper v =
     (case long_at h wrapper of
        None \<Rightarrow> None
      | Some c \<Rightarrow>
          Some (h(wrapper \<mapsto> Atomic_long
            (c\<lparr>long_value := atomic_store_explicit (long_value c) v memory_order_relaxed\<rparr>))))"


section \<open>CSDAtomics.c: the boolean cell\<close>

definition c_sd_atomic_bool_create ::
  "'l heap \<Rightarrow> addr option \<Rightarrow> bool \<Rightarrow> (addr \<times> 'l heap) option" where
  "c_sd_atomic_bool_create h malloc_result v =
     (case malloc_result of
        None \<Rightarrow> None
      | Some wrapper \<Rightarrow>
          Some (wrapper,
                h(wrapper \<mapsto> Atomic_bool \<lparr>bool_value = atomic_init (bool_to_byte v)\<rparr>)))"

definition c_sd_atomic_bool_compare_and_exchange ::
  "'l heap \<Rightarrow> addr \<Rightarrow> bool \<Rightarrow> bool \<Rightarrow> (bool \<times> 'l heap) option" where
  "c_sd_atomic_bool_compare_and_exchange h wrapper expected desired =
     (case bool_at h wrapper of
        None \<Rightarrow> None
      | Some c \<Rightarrow>
          (let expected_copy = bool_to_byte expected in
           case atomic_compare_exchange_strong (bool_value c) expected_copy
                  (bool_to_byte desired) of
             (ok, obj, expected_copy') \<Rightarrow>
               Some (ok, h(wrapper \<mapsto> Atomic_bool (c\<lparr>bool_value := obj\<rparr>)))))"

definition c_sd_atomic_bool_add ::
  "'l heap \<Rightarrow> addr \<Rightarrow> bool \<Rightarrow> (bool \<times> 'l heap) option" where
  "c_sd_atomic_bool_add h wrapper v =
     (case bool_at h wrapper of
        None \<Rightarrow> None
      | Some c \<Rightarrow>
          (case atomic_fetch_add_explicit_bool (bool_value c) (bool_to_byte v)
                  memory_order_relaxed of
             (old, obj) \<Rightarrow>
               Some (byte_to_bool old, h(wrapper \<mapsto> Atomic_bool (c\<lparr>bool_value := obj\<rparr>)))))"

definition c_sd_atomic_bool_sub ::
  "'l heap \<Rightarrow> addr \<Rightarrow> bool \<Rightarrow> (bool \<times> 'l heap) option" where
  "c_sd_atomic_bool_sub h wrapper v =
     (case bool_at h wrapper of
        None \<Rightarrow> None
      | Some c \<Rightarrow>
          (case atomic_fetch_sub_explicit_bool (bool_value c) (bool_to_byte v)
                  memory_order_relaxed of
             (old, obj) \<Rightarrow>
               Some (byte_to_bool old, h(wrapper \<mapsto> Atomic_bool (c\<lparr>bool_value := obj\<rparr>)))))"

definition c_sd_atomic_bool_load :: "'l heap \<Rightarrow> addr \<Rightarrow> bool option" where
  "c_sd_atomic_bool_load h wrapper =
     (case bool_at h wrapper of
        None \<Rightarrow> None
      | Some c \<Rightarrow>
          Some (byte_to_bool (atomic_load_explicit (bool_value c) memory_order_relaxed)))"

definition c_sd_atomic_bool_store :: "'l heap \<Rightarrow> addr \<Rightarrow> bool \<Rightarrow> 'l heap option" where
  "c_sd_atomic_bool_store h wrapper v =
     (case bool_at h wrapper of
        None \<Rightarrow> None
      | Some c \<Rightarrow>
          Some (h(wrapper \<mapsto> Atomic_bool
            (c\<lparr>bool_value :=
                 atomic_store_explicit (bool_value c) (bool_to_byte v) memory_order_relaxed\<rparr>))))"


section \<open>Sequences of calls\<close>

text \<open>
  A caller's program, for the claims that speak of sequences of operations: each call
  names the cell it targets. \<open>exec\<close> performs one call and keeps the heap, \<open>run\<close>
  performs a list of calls in order and stops at the first undefined one.
\<close>

datatype 'l call =
    Long_compare_and_exchange 'l 'l
  | Long_add 'l
  | Long_sub 'l
  | Long_load
  | Long_store 'l
  | Bool_compare_and_exchange bool bool
  | Bool_add bool
  | Bool_sub bool
  | Bool_load
  | Bool_store bool

fun exec :: "'w::len word heap \<Rightarrow> addr \<times> 'w word call \<Rightarrow> 'w word heap option" where
  "exec h (p, Long_compare_and_exchange e d) =
     map_option snd (c_sd_atomic_long_compare_and_exchange h p e d)"
| "exec h (p, Long_add v) = map_option snd (c_sd_atomic_long_add h p v)"
| "exec h (p, Long_sub v) = map_option snd (c_sd_atomic_long_sub h p v)"
| "exec h (p, Long_load) = map_option (\<lambda>_. h) (c_sd_atomic_long_load h p)"
| "exec h (p, Long_store v) = c_sd_atomic_long_store h p v"
| "exec h (p, Bool_compare_and_exchange e d) =
     map_option snd (c_sd_atomic_bool_compare_and_exchange h p e d)"
| "exec h (p, Bool_add v) = map_option snd (c_sd_atomic_bool_add h p v)"
| "exec h (p, Bool_sub v) = map_option snd (c_sd_atomic_bool_sub h p v)"
| "exec h (p, Bool_load) = map_option (\<lambda>_. h) (c_sd_atomic_bool_load h p)"
| "exec h (p, Bool_store v) = c_sd_atomic_bool_store h p v"

fun run :: "'w::len word heap \<Rightarrow> (addr \<times> 'w word call) list \<Rightarrow> 'w word heap option" where
  "run h [] = Some h"
| "run h (c # cs) = (case exec h c of None \<Rightarrow> None | Some h' \<Rightarrow> run h' cs)"

definition targets :: "addr \<Rightarrow> (addr \<times> 'l call) list \<Rightarrow> (addr \<times> 'l call) list" where
  "targets a cs = filter (\<lambda>c. fst c = a) cs"


section \<open>Helper facts\<close>

lemma long_at_Some_iff: "long_at h p = Some c \<longleftrightarrow> h p = Some (Atomic_long c)"
  by (auto simp: long_at_def split: option.splits object.splits)

lemma bool_at_Some_iff: "bool_at h p = Some c \<longleftrightarrow> h p = Some (Atomic_bool c)"
  by (auto simp: bool_at_def split: option.splits object.splits)

lemma long_at_upd_same: "long_at (h(p \<mapsto> Atomic_long c)) p = Some c"
  by (simp add: long_at_def)

lemma bool_at_upd_same: "bool_at (h(p \<mapsto> Atomic_bool c)) p = Some c"
  by (simp add: bool_at_def)

lemma sint_plus_wrap:
  "sint (x + y :: 'w::len word) =
     (sint x + sint y + 2 ^ (LENGTH('w) - 1)) mod 2 ^ LENGTH('w) - 2 ^ (LENGTH('w) - 1)"
  by (simp add: sint_word_ariths signed_take_bit_eq_take_bit_shift take_bit_eq_mod)

lemma sint_minus_wrap:
  "sint (x - y :: 'w::len word) =
     (sint x - sint y + 2 ^ (LENGTH('w) - 1)) mod 2 ^ LENGTH('w) - 2 ^ (LENGTH('w) - 1)"
  by (simp add: sint_word_ariths signed_take_bit_eq_take_bit_shift take_bit_eq_mod)

lemma long_update_eq: "(c :: 'l c_sd_atomic_long)\<lparr>long_value := v\<rparr> = \<lparr>long_value = v\<rparr>"
  by (cases c) simp

lemma bool_update_eq: "(c :: c_sd_atomic_bool)\<lparr>bool_value := v\<rparr> = \<lparr>bool_value = v\<rparr>"
  by (cases c) simp

lemma heap_upd_same_long: "long_at h p = Some c \<Longrightarrow> h(p \<mapsto> Atomic_long c) = h"
  by (auto simp: long_at_Some_iff)

lemma heap_upd_same_bool: "bool_at h p = Some c \<Longrightarrow> h(p \<mapsto> Atomic_bool c) = h"
  by (auto simp: bool_at_Some_iff)

lemma byte_to_bool_to_byte: "byte_to_bool (bool_to_byte b) = b"
  by (simp add: byte_to_bool_def bool_to_byte_def)

lemma bool_to_byte_xor1: "bool_to_byte b XOR 1 = bool_to_byte (\<not> b)"
  by (simp add: bool_to_byte_def)

lemma bool_to_byte_bit0: "bit (bool_to_byte b) 0 = b"
  by (simp add: bool_to_byte_def)

lemma bool_add_mod2: "(bool_to_byte b + bool_to_byte v) mod 2 = bool_to_byte (b \<noteq> v)"
  by (cases b; cases v) (simp_all add: bool_to_byte_def)

lemma byte_sub_mod2: "(x - y) mod 2 = (x + y) mod (2 :: 8 word)"
  by (simp add: mod_2_eq_odd)

lemma long_cae_eq:
  "long_at h p = Some c \<Longrightarrow>
     c_sd_atomic_long_compare_and_exchange h p expected desired =
       Some (if long_value c = expected
             then (True, h(p \<mapsto> Atomic_long \<lparr>long_value = desired\<rparr>))
             else (False, h))"
  by (simp add: c_sd_atomic_long_compare_and_exchange_def atomic_compare_exchange_strong_def
      long_update_eq heap_upd_same_long)

lemma bool_cae_eq:
  "bool_at h p = Some c \<Longrightarrow>
     c_sd_atomic_bool_compare_and_exchange h p expected desired =
       Some (if bool_value c = bool_to_byte expected
             then (True, h(p \<mapsto> Atomic_bool \<lparr>bool_value = bool_to_byte desired\<rparr>))
             else (False, h))"
  by (simp add: c_sd_atomic_bool_compare_and_exchange_def atomic_compare_exchange_strong_def
      bool_update_eq heap_upd_same_bool)

lemma exec_frame:
  "exec h (p, c) = Some h' \<Longrightarrow> q \<noteq> p \<Longrightarrow> h' q = h q"
  by (cases c)
     (auto simp: c_sd_atomic_long_compare_and_exchange_def c_sd_atomic_long_add_def
        c_sd_atomic_long_sub_def c_sd_atomic_long_load_def c_sd_atomic_long_store_def
        c_sd_atomic_bool_compare_and_exchange_def c_sd_atomic_bool_add_def
        c_sd_atomic_bool_sub_def c_sd_atomic_bool_load_def c_sd_atomic_bool_store_def
        split: option.splits prod.splits)

lemma long_at_cong: "h2 p = h1 p \<Longrightarrow> long_at h2 p = long_at h1 p"
  by (simp add: long_at_def)

lemma bool_at_cong: "h2 p = h1 p \<Longrightarrow> bool_at h2 p = bool_at h1 p"
  by (simp add: bool_at_def)

lemma exec_local:
  assumes "exec h1 (p, c) = Some h1'" and "h2 p = h1 p"
  shows "\<exists>h2'. exec h2 (p, c) = Some h2' \<and> h2' p = h1' p"
  using assms long_at_cong [of h2 p h1] bool_at_cong [of h2 p h1]
  by (cases c)
     (auto simp: c_sd_atomic_long_compare_and_exchange_def c_sd_atomic_long_add_def
        c_sd_atomic_long_sub_def c_sd_atomic_long_load_def c_sd_atomic_long_store_def
        c_sd_atomic_bool_compare_and_exchange_def c_sd_atomic_bool_add_def
        c_sd_atomic_bool_sub_def c_sd_atomic_bool_load_def c_sd_atomic_bool_store_def
        split: option.splits prod.splits)

lemma run_targets:
  "run h1 cs = Some h1' \<Longrightarrow> h2 a = h1 a \<Longrightarrow>
     \<exists>h2'. run h2 (targets a cs) = Some h2' \<and> h2' a = h1' a"
proof (induction cs arbitrary: h1 h2)
  case Nil
  then show ?case by (simp add: targets_def)
next
  case (Cons pc cs)
  obtain p c where pc: "pc = (p, c)" by (cases pc)
  from Cons.prems(1) obtain m1 where m1: "exec h1 (p, c) = Some m1" and r1: "run m1 cs = Some h1'"
    by (auto simp: pc split: option.splits)
  show ?case
  proof (cases "p = a")
    case True
    from exec_local [of h1 p c m1 h2] m1 Cons.prems(2) True
    obtain m2 where m2: "exec h2 (p, c) = Some m2" and eq: "m2 a = m1 a" by auto
    from Cons.IH [of m1 m2] r1 eq
    obtain h2' where "run m2 (targets a cs) = Some h2'" "h2' a = h1' a"
      by auto
    with m2 True show ?thesis by (simp add: pc targets_def)
  next
    case False
    then have "m1 a = h1 a" using exec_frame [of h1 p c m1 a] m1 by simp
    with Cons.prems(2) have "h2 a = m1 a" by simp
    with Cons.IH [of m1 h2] r1 False show ?thesis by (simp add: pc targets_def)
  qed
qed


text \<open>
  No call writes a byte other than 0 or 1 into a boolean cell, so a heap built by
  \<open>create\<close> and calls holds only boolean cells of the form \<open>bool_to_byte b\<close>.
\<close>

lemma byte_mod2_cases: "(x :: 8 word) mod 2 = 0 \<or> x mod 2 = 1"
  by (simp add: mod_2_eq_odd)

lemma exec_keeps_bool_bytes:
  assumes "exec h (p, c) = Some h'"
    and "\<And>a x. bool_at h a = Some x \<Longrightarrow> bool_value x = 0 \<or> bool_value x = 1"
    and "bool_at h' a = Some x"
  shows "bool_value x = 0 \<or> bool_value x = 1"
proof (cases "a = p")
  case False
  with assms(1) have "h' a = h a" by (simp add: exec_frame)
  then have "bool_at h a = Some x" using assms(3) by (simp add: bool_at_def)
  then show ?thesis by (rule assms(2))
next
  case True
  show ?thesis
  proof (cases "bool_at h p")
    case None
    with assms(1,3) True show ?thesis
      by (cases c)
         (auto simp: c_sd_atomic_long_compare_and_exchange_def c_sd_atomic_long_add_def
            c_sd_atomic_long_sub_def c_sd_atomic_long_load_def c_sd_atomic_long_store_def
            c_sd_atomic_bool_compare_and_exchange_def c_sd_atomic_bool_add_def
            c_sd_atomic_bool_sub_def c_sd_atomic_bool_load_def c_sd_atomic_bool_store_def
            bool_at_def split: option.splits prod.splits)
  next
    case (Some y)
    then have y: "bool_value y = 0 \<or> bool_value y = 1" by (rule assms(2))
    have "long_at h p = None"
      using Some by (auto simp: long_at_def bool_at_def split: option.splits object.splits)
    with assms(1,3) True Some y byte_mod2_cases show ?thesis
      by (cases c)
         (auto simp: c_sd_atomic_long_compare_and_exchange_def c_sd_atomic_long_add_def
            c_sd_atomic_long_sub_def c_sd_atomic_long_load_def c_sd_atomic_long_store_def
            bool_cae_eq c_sd_atomic_bool_add_def
            c_sd_atomic_bool_sub_def c_sd_atomic_bool_load_def c_sd_atomic_bool_store_def
            atomic_fetch_add_explicit_bool_def atomic_fetch_sub_explicit_bool_def
            atomic_store_explicit_def bool_at_upd_same bool_update_eq bool_to_byte_def
            split: if_splits)
  qed
qed


section \<open>The integer cell\<close>

text \<open>
  C1. For an integer cell holding \<open>long_value c\<close>, \<open>compareAndExchange\<close> compares that
  value with \<open>expected\<close>: when they are equal the cell receives \<open>desired\<close> and the call
  returns true; otherwise the heap is left as it was and the call returns false. The
  failure is never spurious: called with the current value as \<open>expected\<close> it returns
  true. The run of section 8 is included: create(5); compareAndExchange(5, 9) is true and
  a load gives 9; compareAndExchange(5, 1) is then false and a load still gives 9.
\<close>

theorem long_compare_and_exchange_strong:
  fixes h :: "'w::len word heap"
  assumes "long_at h p = Some c"
  shows "c_sd_atomic_long_compare_and_exchange h p expected desired =
           Some (if long_value c = expected
                 then (True, h(p \<mapsto> Atomic_long \<lparr>long_value = desired\<rparr>))
                 else (False, h))
       \<and> c_sd_atomic_long_load (h(p \<mapsto> Atomic_long \<lparr>long_value = desired\<rparr>)) p = Some desired
       \<and> map_option fst (c_sd_atomic_long_compare_and_exchange h p (long_value c) desired) = Some True
       \<and> do { (cell, h1) \<leftarrow> c_sd_atomic_long_create (h0 :: 64 word heap) (Some q) 5;
              (r1, h2) \<leftarrow> c_sd_atomic_long_compare_and_exchange h1 cell 5 9;
              x1 \<leftarrow> c_sd_atomic_long_load h2 cell;
              (r2, h3) \<leftarrow> c_sd_atomic_long_compare_and_exchange h2 cell 5 1;
              x2 \<leftarrow> c_sd_atomic_long_load h3 cell;
              Some (r1, x1, r2, x2) } = Some (True, 9, False, 9)"
  using assms
  by (simp add: c_sd_atomic_long_compare_and_exchange_def c_sd_atomic_long_load_def
      c_sd_atomic_long_create_def atomic_compare_exchange_strong_def atomic_load_explicit_def
      atomic_init_def long_at_upd_same long_update_eq heap_upd_same_long)

theorem long_compare_and_exchange_strong_witness:
  "long_at [0 \<mapsto> Atomic_long \<lparr>long_value = 5 :: 64 word\<rparr>] 0 = Some \<lparr>long_value = 5\<rparr>
   \<and> c_sd_atomic_long_compare_and_exchange [0 \<mapsto> Atomic_long \<lparr>long_value = 5 :: 64 word\<rparr>] 0 5 9
       = Some (True, [0 \<mapsto> Atomic_long \<lparr>long_value = 9\<rparr>])
   \<and> c_sd_atomic_long_compare_and_exchange [0 \<mapsto> Atomic_long \<lparr>long_value = 5 :: 64 word\<rparr>] 0 7 9
       = Some (False, [0 \<mapsto> Atomic_long \<lparr>long_value = 5\<rparr>])"
  using long_compare_and_exchange_strong
          [of "[0 \<mapsto> Atomic_long \<lparr>long_value = 5 :: 64 word\<rparr>]" 0 "\<lparr>long_value = 5\<rparr>" 5 9 Map.empty 0]
        long_compare_and_exchange_strong
          [of "[0 \<mapsto> Atomic_long \<lparr>long_value = 5 :: 64 word\<rparr>]" 0 "\<lparr>long_value = 5\<rparr>" 7 9 Map.empty 0]
  by (simp add: long_at_def)

text \<open>
  C2. For an integer cell holding \<open>v\<close> and every \<open>d\<close>, \<open>add\<close> returns \<open>v\<close> and leaves
  \<open>v + d\<close> in the cell, wrapped around in two's complement at the width of \<open>long\<close>:
  read as signed numbers, the new value is the sum reduced into
  \<open>-2^(w-1) .. 2^(w-1) - 1\<close>. The call always returns a result. After create(10),
  add(cell, 5) returns 10 and a load returns 15.
\<close>

theorem long_add_fetch_then_add:
  fixes h h0 :: "'w::len word heap"
  assumes "long_at h p = Some c"
  shows "c_sd_atomic_long_add h p d =
           Some (long_value c, h(p \<mapsto> Atomic_long \<lparr>long_value = long_value c + d\<rparr>))
       \<and> c_sd_atomic_long_load h p = Some (long_value c)
       \<and> c_sd_atomic_long_load (h(p \<mapsto> Atomic_long \<lparr>long_value = long_value c + d\<rparr>)) p =
           Some (long_value c + d)
       \<and> sint (long_value c + d) =
           (sint (long_value c) + sint d + 2 ^ (LENGTH('w) - 1)) mod 2 ^ LENGTH('w)
             - 2 ^ (LENGTH('w) - 1)
       \<and> do { (cell, h1) \<leftarrow> c_sd_atomic_long_create h0 (Some q) 10;
              (r, h2) \<leftarrow> c_sd_atomic_long_add h1 cell 5;
              x \<leftarrow> c_sd_atomic_long_load h2 cell;
              Some (r, x) } = Some (10, 15)"
  using assms
  by (simp add: c_sd_atomic_long_add_def c_sd_atomic_long_load_def c_sd_atomic_long_create_def
      atomic_fetch_add_explicit_def atomic_load_explicit_def atomic_init_def
      long_at_upd_same long_update_eq sint_plus_wrap)

theorem long_add_fetch_then_add_witness:
  "long_at [0 \<mapsto> Atomic_long \<lparr>long_value = 0x7FFFFFFFFFFFFFFF :: 64 word\<rparr>] 0
     = Some \<lparr>long_value = 0x7FFFFFFFFFFFFFFF\<rparr>
   \<and> c_sd_atomic_long_add [0 \<mapsto> Atomic_long \<lparr>long_value = 0x7FFFFFFFFFFFFFFF :: 64 word\<rparr>] 0 1
     = Some (0x7FFFFFFFFFFFFFFF, [0 \<mapsto> Atomic_long \<lparr>long_value = 0x8000000000000000\<rparr>])
   \<and> sint (0x7FFFFFFFFFFFFFFF + 1 :: 64 word) = - (2 ^ 63)"
  using long_add_fetch_then_add [of "[0 \<mapsto> Atomic_long \<lparr>long_value = 0x7FFFFFFFFFFFFFFF :: 64 word\<rparr>]"
      0 "\<lparr>long_value = 0x7FFFFFFFFFFFFFFF\<rparr>" 1 Map.empty 0]
  by (simp add: long_at_def)

text \<open>
  C5. For an integer cell holding \<open>v\<close> and every \<open>d\<close>, \<open>sub\<close> returns \<open>v\<close> and leaves
  \<open>v - d\<close> in the cell, wrapped around in two's complement exactly as \<open>add\<close> wraps the
  sum. The call always returns a result.
\<close>

theorem long_sub_fetch_then_sub:
  fixes h :: "'w::len word heap"
  assumes "long_at h p = Some c"
  shows "c_sd_atomic_long_sub h p d =
           Some (long_value c, h(p \<mapsto> Atomic_long \<lparr>long_value = long_value c - d\<rparr>))
       \<and> c_sd_atomic_long_load h p = Some (long_value c)
       \<and> c_sd_atomic_long_load (h(p \<mapsto> Atomic_long \<lparr>long_value = long_value c - d\<rparr>)) p =
           Some (long_value c - d)
       \<and> sint (long_value c - d) =
           (sint (long_value c) - sint d + 2 ^ (LENGTH('w) - 1)) mod 2 ^ LENGTH('w)
             - 2 ^ (LENGTH('w) - 1)"
  using assms
  by (simp add: c_sd_atomic_long_sub_def c_sd_atomic_long_load_def
      atomic_fetch_sub_explicit_def atomic_load_explicit_def
      long_at_upd_same long_update_eq sint_minus_wrap)

theorem long_sub_fetch_then_sub_witness:
  "long_at [0 \<mapsto> Atomic_long \<lparr>long_value = 0x8000000000000000 :: 64 word\<rparr>] 0
     = Some \<lparr>long_value = 0x8000000000000000\<rparr>
   \<and> c_sd_atomic_long_sub [0 \<mapsto> Atomic_long \<lparr>long_value = 0x8000000000000000 :: 64 word\<rparr>] 0 1
     = Some (0x8000000000000000, [0 \<mapsto> Atomic_long \<lparr>long_value = 0x7FFFFFFFFFFFFFFF\<rparr>])
   \<and> sint (0x8000000000000000 :: 64 word) = - (2 ^ 63)
   \<and> sint (0x8000000000000000 - 1 :: 64 word) = 2 ^ 63 - 1"
  using long_sub_fetch_then_sub [of "[0 \<mapsto> Atomic_long \<lparr>long_value = 0x8000000000000000 :: 64 word\<rparr>]"
      0 "\<lparr>long_value = 0x8000000000000000\<rparr>" 1]
  by (simp add: long_at_def)

text \<open>
  C10. On an integer cell holding \<open>v\<close>, add(cell, d) followed by sub(cell, d) returns
  \<open>v\<close> and then \<open>v + d\<close> (the sum modulo \<open>2^w\<close>) and leaves the heap exactly as it was;
  sub followed by add does the same with \<open>v - d\<close>. The two operations undo each other.
\<close>

theorem long_add_sub_inverse:
  fixes h :: "'w::len word heap"
  assumes "long_at h p = Some c"
  shows "do { (r1, h1) \<leftarrow> c_sd_atomic_long_add h p d;
              (r2, h2) \<leftarrow> c_sd_atomic_long_sub h1 p d;
              Some (r1, r2, h2) } = Some (long_value c, long_value c + d, h)
       \<and> do { (r1, h1) \<leftarrow> c_sd_atomic_long_sub h p d;
              (r2, h2) \<leftarrow> c_sd_atomic_long_add h1 p d;
              Some (r1, r2, h2) } = Some (long_value c, long_value c - d, h)
       \<and> uint (long_value c + d) = (uint (long_value c) + uint d) mod 2 ^ LENGTH('w)"
  using assms
  by (simp add: c_sd_atomic_long_add_def c_sd_atomic_long_sub_def
      atomic_fetch_add_explicit_def atomic_fetch_sub_explicit_def
      long_at_upd_same heap_upd_same_long uint_word_ariths)

theorem long_add_sub_inverse_witness:
  "long_at [0 \<mapsto> Atomic_long \<lparr>long_value = - 1 :: 64 word\<rparr>] 0 = Some \<lparr>long_value = - 1\<rparr>
   \<and> do { (r1, h1) \<leftarrow> c_sd_atomic_long_add [0 \<mapsto> Atomic_long \<lparr>long_value = - 1 :: 64 word\<rparr>] 0 3;
          (r2, h2) \<leftarrow> c_sd_atomic_long_sub h1 0 3;
          Some (r1, r2, h2) } = Some (- 1, 2, [0 \<mapsto> Atomic_long \<lparr>long_value = - 1\<rparr>])"
  using long_add_sub_inverse [of "[0 \<mapsto> Atomic_long \<lparr>long_value = - 1 :: 64 word\<rparr>]" 0
      "\<lparr>long_value = - 1\<rparr>" 3]
  by (simp add: long_at_def)


section \<open>Store and load\<close>

text \<open>
  C6. On an integer cell and on a boolean cell alike, \<open>store\<close> puts \<open>v\<close> in the cell
  whatever it held before (the resulting heap does not mention the old value) and
  returns only the updated heap; a load right after the store returns \<open>v\<close>; and \<open>load\<close>
  returns what the cell holds.
\<close>

theorem store_then_load:
  fixes h :: "'w::len word heap" and g :: "'l heap"
  shows "(long_at h p = Some c \<longrightarrow>
            c_sd_atomic_long_store h p v = Some (h(p \<mapsto> Atomic_long \<lparr>long_value = v\<rparr>))
          \<and> do { h' \<leftarrow> c_sd_atomic_long_store h p v; c_sd_atomic_long_load h' p } = Some v
          \<and> c_sd_atomic_long_load h p = Some (long_value c))
       \<and> (bool_at g q = Some b \<longrightarrow>
            c_sd_atomic_bool_store g q u = Some (g(q \<mapsto> Atomic_bool \<lparr>bool_value = bool_to_byte u\<rparr>))
          \<and> do { g' \<leftarrow> c_sd_atomic_bool_store g q u; c_sd_atomic_bool_load g' q } = Some u
          \<and> c_sd_atomic_bool_load g q = Some (byte_to_bool (bool_value b)))"
  by (simp add: c_sd_atomic_long_store_def c_sd_atomic_long_load_def
      c_sd_atomic_bool_store_def c_sd_atomic_bool_load_def
      atomic_store_explicit_def atomic_load_explicit_def
      long_at_upd_same bool_at_upd_same long_update_eq bool_update_eq byte_to_bool_to_byte)

theorem store_then_load_witness:
  "long_at [0 \<mapsto> Atomic_long \<lparr>long_value = 3 :: 64 word\<rparr>] 0 = Some \<lparr>long_value = 3\<rparr>
   \<and> c_sd_atomic_long_store [0 \<mapsto> Atomic_long \<lparr>long_value = 3 :: 64 word\<rparr>] 0 (- 8)
       = Some [0 \<mapsto> Atomic_long \<lparr>long_value = - 8\<rparr>]
   \<and> c_sd_atomic_long_load [0 \<mapsto> Atomic_long \<lparr>long_value = 3 :: 64 word\<rparr>] 0 = Some 3
   \<and> bool_at ([1 \<mapsto> Atomic_bool \<lparr>bool_value = 0\<rparr>] :: 64 word heap) 1 = Some \<lparr>bool_value = 0\<rparr>
   \<and> c_sd_atomic_bool_store ([1 \<mapsto> Atomic_bool \<lparr>bool_value = 0\<rparr>] :: 64 word heap) 1 True
       = Some [1 \<mapsto> Atomic_bool \<lparr>bool_value = 1\<rparr>]
   \<and> c_sd_atomic_bool_load ([1 \<mapsto> Atomic_bool \<lparr>bool_value = 0\<rparr>] :: 64 word heap) 1 = Some False"
  using store_then_load [of "[0 \<mapsto> Atomic_long \<lparr>long_value = 3 :: 64 word\<rparr>]" 0 "\<lparr>long_value = 3\<rparr>" "- 8"
      "[1 \<mapsto> Atomic_bool \<lparr>bool_value = 0\<rparr>] :: 64 word heap" 1 "\<lparr>bool_value = 0\<rparr>" True]
  by (simp add: long_at_def bool_at_def bool_to_byte_def byte_to_bool_def)

section \<open>The boolean cell\<close>

text \<open>
  C3. For a boolean cell holding \<open>b\<close>, add(cell, true) returns \<open>b\<close> and leaves the cell
  holding \<open>b XOR 1\<close>: the stored byte is the old byte with bit 0 toggled, which is the
  byte of \<open>\<not> b\<close>, and a load returns \<open>\<not> b\<close>. add(cell, false) returns \<open>b\<close> and leaves
  the heap as it was. After create(false), add(cell, true) returns false and the cell
  loads true; a second add(cell, true) returns true and the cell loads false.
\<close>

theorem bool_add_toggles_bit0:
  fixes h h0 :: "'l heap"
  assumes "bool_at h p = Some \<lparr>bool_value = bool_to_byte b\<rparr>"
  shows "c_sd_atomic_bool_add h p True =
           Some (b, h(p \<mapsto> Atomic_bool \<lparr>bool_value = bool_to_byte b XOR 1\<rparr>))
       \<and> bool_to_byte b XOR 1 = bool_to_byte (\<not> b)
       \<and> bit (bool_to_byte b XOR 1) 0 = (\<not> bit (bool_to_byte b) 0)
       \<and> c_sd_atomic_bool_load h p = Some b
       \<and> c_sd_atomic_bool_load (h(p \<mapsto> Atomic_bool \<lparr>bool_value = bool_to_byte b XOR 1\<rparr>)) p =
           Some (\<not> b)
       \<and> c_sd_atomic_bool_add h p False = Some (b, h)
       \<and> do { (cell, h1) \<leftarrow> c_sd_atomic_bool_create h0 (Some q) False;
              (r1, h2) \<leftarrow> c_sd_atomic_bool_add h1 cell True;
              x1 \<leftarrow> c_sd_atomic_bool_load h2 cell;
              (r2, h3) \<leftarrow> c_sd_atomic_bool_add h2 cell True;
              x2 \<leftarrow> c_sd_atomic_bool_load h3 cell;
              Some (r1, x1, r2, x2) } = Some (False, True, True, False)"
proof -
  have step: "c_sd_atomic_bool_add k a v =
                Some (x, k(a \<mapsto> Atomic_bool \<lparr>bool_value = bool_to_byte (x \<noteq> v)\<rparr>))"
    if "bool_at k a = Some \<lparr>bool_value = bool_to_byte x\<rparr>" for k :: "'l heap" and a x v
    using that
    by (simp add: c_sd_atomic_bool_add_def atomic_fetch_add_explicit_bool_def
        bool_add_mod2 byte_to_bool_to_byte)
  have rd: "c_sd_atomic_bool_load k a = Some x"
    if "bool_at k a = Some \<lparr>bool_value = bool_to_byte x\<rparr>" for k :: "'l heap" and a x
    using that
    by (simp add: c_sd_atomic_bool_load_def atomic_load_explicit_def byte_to_bool_to_byte)
  have flip: "bool_to_byte b XOR 1 = bool_to_byte (\<not> b)"
    by (rule bool_to_byte_xor1)
  have unchanged: "h(p \<mapsto> Atomic_bool \<lparr>bool_value = bool_to_byte b\<rparr>) = h"
    using assms by (rule heap_upd_same_bool)
  have run: "do { (cell, h1) \<leftarrow> c_sd_atomic_bool_create h0 (Some q) False;
              (r1, h2) \<leftarrow> c_sd_atomic_bool_add h1 cell True;
              x1 \<leftarrow> c_sd_atomic_bool_load h2 cell;
              (r2, h3) \<leftarrow> c_sd_atomic_bool_add h2 cell True;
              x2 \<leftarrow> c_sd_atomic_bool_load h3 cell;
              Some (r1, x1, r2, x2) } = Some (False, True, True, False)"
    by (simp add: c_sd_atomic_bool_create_def atomic_init_def step rd bool_at_upd_same)
  show ?thesis
    using step [OF assms, of True] step [OF assms, of False] rd [OF assms]
      rd [of "h(p \<mapsto> Atomic_bool \<lparr>bool_value = bool_to_byte (\<not> b)\<rparr>)" p "\<not> b"]
    by (simp add: flip unchanged run bool_at_upd_same bool_to_byte_bit0)
qed

theorem bool_add_toggles_bit0_witness:
  "bool_at ([0 \<mapsto> Atomic_bool \<lparr>bool_value = 1\<rparr>] :: 64 word heap) 0
     = Some \<lparr>bool_value = bool_to_byte True\<rparr>
   \<and> c_sd_atomic_bool_add ([0 \<mapsto> Atomic_bool \<lparr>bool_value = 1\<rparr>] :: 64 word heap) 0 True
       = Some (True, [0 \<mapsto> Atomic_bool \<lparr>bool_value = 0\<rparr>])
   \<and> c_sd_atomic_bool_load ([0 \<mapsto> Atomic_bool \<lparr>bool_value = 0\<rparr>] :: 64 word heap) 0 = Some False
   \<and> c_sd_atomic_bool_add ([0 \<mapsto> Atomic_bool \<lparr>bool_value = 1\<rparr>] :: 64 word heap) 0 False
       = Some (True, [0 \<mapsto> Atomic_bool \<lparr>bool_value = 1\<rparr>])"
  using bool_add_toggles_bit0 [of "[0 \<mapsto> Atomic_bool \<lparr>bool_value = 1\<rparr>] :: 64 word heap" 0
      True Map.empty 0]
  by (simp add: bool_at_def bool_to_byte_def)

text \<open>
  C4. For every boolean cell, whatever byte it holds, sub(cell, true) gives exactly what
  add(cell, true) gives, the same returned value and the same heap, and so does
  sub(cell, false) with add(cell, false): the difference and the sum agree modulo 2. On
  a cell holding \<open>b\<close> both return \<open>b\<close> and leave the byte of \<open>b \<noteq> v\<close>.
\<close>

theorem bool_sub_same_as_add:
  fixes h :: "'l heap"
  assumes "bool_at h p = Some c"
  shows "c_sd_atomic_bool_sub h p True = c_sd_atomic_bool_add h p True
       \<and> c_sd_atomic_bool_sub h p False = c_sd_atomic_bool_add h p False
       \<and> c_sd_atomic_bool_sub h p v =
           Some (byte_to_bool (bool_value c),
                 h(p \<mapsto> Atomic_bool \<lparr>bool_value = (bool_value c - bool_to_byte v) mod 2\<rparr>))
       \<and> (bool_value c - bool_to_byte v) mod 2 = (bool_value c + bool_to_byte v) mod 2
       \<and> (bool_value c = bool_to_byte b \<longrightarrow>
            c_sd_atomic_bool_sub h p v =
              Some (b, h(p \<mapsto> Atomic_bool \<lparr>bool_value = bool_to_byte (b \<noteq> v)\<rparr>)))"
proof -
  have sub: "c_sd_atomic_bool_sub h p u =
               Some (byte_to_bool (bool_value c),
                     h(p \<mapsto> Atomic_bool \<lparr>bool_value = (bool_value c - bool_to_byte u) mod 2\<rparr>))"
    for u
    using assms
    by (simp add: c_sd_atomic_bool_sub_def atomic_fetch_sub_explicit_bool_def bool_update_eq)
  have add: "c_sd_atomic_bool_add h p u =
               Some (byte_to_bool (bool_value c),
                     h(p \<mapsto> Atomic_bool \<lparr>bool_value = (bool_value c + bool_to_byte u) mod 2\<rparr>))"
    for u
    using assms
    by (simp add: c_sd_atomic_bool_add_def atomic_fetch_add_explicit_bool_def bool_update_eq)
  have same: "c_sd_atomic_bool_sub h p u = c_sd_atomic_bool_add h p u" for u
    by (simp add: sub add byte_sub_mod2)
  have held: "c_sd_atomic_bool_sub h p v =
                Some (b, h(p \<mapsto> Atomic_bool \<lparr>bool_value = bool_to_byte (b \<noteq> v)\<rparr>))"
    if "bool_value c = bool_to_byte b"
    using that by (simp add: sub byte_sub_mod2 bool_add_mod2 byte_to_bool_to_byte)
  show ?thesis
    using same [of True] same [of False] sub [of v] held
    by (simp add: byte_sub_mod2)
qed

theorem bool_sub_same_as_add_witness:
  "bool_at ([0 \<mapsto> Atomic_bool \<lparr>bool_value = 0\<rparr>] :: 64 word heap) 0 = Some \<lparr>bool_value = 0\<rparr>
   \<and> (0 :: 8 word) = bool_to_byte False
   \<and> c_sd_atomic_bool_sub ([0 \<mapsto> Atomic_bool \<lparr>bool_value = 0\<rparr>] :: 64 word heap) 0 True
       = Some (False, [0 \<mapsto> Atomic_bool \<lparr>bool_value = 1\<rparr>])
   \<and> c_sd_atomic_bool_add ([0 \<mapsto> Atomic_bool \<lparr>bool_value = 0\<rparr>] :: 64 word heap) 0 True
       = Some (False, [0 \<mapsto> Atomic_bool \<lparr>bool_value = 1\<rparr>])"
  using bool_sub_same_as_add [of "[0 \<mapsto> Atomic_bool \<lparr>bool_value = 0\<rparr>] :: 64 word heap" 0
      "\<lparr>bool_value = 0\<rparr>" True False]
  by (auto simp: bool_at_def bool_to_byte_def)

section \<open>Independence of cells\<close>

text \<open>
  C8. A call on the cell at \<open>p\<close> leaves every other address of the heap as it was,
  whatever the types of the two cells. The contents of the cell at \<open>a\<close> after a run of
  calls are the contents after running only the calls that target \<open>a\<close>, from any heap
  that agrees with the first one at \<open>a\<close>. Both \<open>create\<close> functions, given an address
  that \<open>malloc\<close> returned outside the allocated ones, add exactly that address, holding
  the initial value, and leave every existing cell as it was.
\<close>

theorem cells_independent:
  fixes h h1 h2 :: "'w::len word heap"
  shows "(exec h (p, c) = Some h' \<longrightarrow> (\<forall>q. q \<noteq> p \<longrightarrow> h' q = h q))
       \<and> (run h1 cs = Some h1' \<longrightarrow> h2 a = h1 a \<longrightarrow>
            (\<exists>h2'. run h2 (targets a cs) = Some h2' \<and> h2' a = h1' a))
       \<and> (m \<notin> dom h \<longrightarrow>
            (\<exists>hl. c_sd_atomic_long_create h (Some m) v = Some (m, hl)
                 \<and> long_at hl m = Some \<lparr>long_value = v\<rparr>
                 \<and> dom hl = insert m (dom h) \<and> (\<forall>q\<in>dom h. hl q = h q))
          \<and> (\<exists>hb. c_sd_atomic_bool_create h (Some m) b = Some (m, hb)
                 \<and> bool_at hb m = Some \<lparr>bool_value = bool_to_byte b\<rparr>
                 \<and> dom hb = insert m (dom h) \<and> (\<forall>q\<in>dom h. hb q = h q)))"
proof (intro conjI impI allI)
  fix q assume "exec h (p, c) = Some h'" "q \<noteq> p"
  then show "h' q = h q" by (rule exec_frame)
next
  assume "run h1 cs = Some h1'" "h2 a = h1 a"
  then show "\<exists>h2'. run h2 (targets a cs) = Some h2' \<and> h2' a = h1' a" by (rule run_targets)
next
  assume "m \<notin> dom h"
  then show "\<exists>hl. c_sd_atomic_long_create h (Some m) v = Some (m, hl)
                 \<and> long_at hl m = Some \<lparr>long_value = v\<rparr>
                 \<and> dom hl = insert m (dom h) \<and> (\<forall>q\<in>dom h. hl q = h q)"
    by (auto simp: c_sd_atomic_long_create_def atomic_init_def long_at_upd_same)
next
  assume "m \<notin> dom h"
  then show "\<exists>hb. c_sd_atomic_bool_create h (Some m) b = Some (m, hb)
                 \<and> bool_at hb m = Some \<lparr>bool_value = bool_to_byte b\<rparr>
                 \<and> dom hb = insert m (dom h) \<and> (\<forall>q\<in>dom h. hb q = h q)"
    by (auto simp: c_sd_atomic_bool_create_def atomic_init_def bool_at_upd_same)
qed

theorem cells_independent_witness:
  "exec [0 \<mapsto> Atomic_long \<lparr>long_value = 0 :: 64 word\<rparr>, 1 \<mapsto> Atomic_bool \<lparr>bool_value = 0\<rparr>]
        (0, Long_add 5)
     = Some [0 \<mapsto> Atomic_long \<lparr>long_value = 5\<rparr>, 1 \<mapsto> Atomic_bool \<lparr>bool_value = 0\<rparr>]
   \<and> run [0 \<mapsto> Atomic_long \<lparr>long_value = 0 :: 64 word\<rparr>, 1 \<mapsto> Atomic_bool \<lparr>bool_value = 0\<rparr>]
        [(0, Long_add 5), (1, Bool_add True), (0, Long_sub 2), (1, Bool_store False)]
     = Some [0 \<mapsto> Atomic_long \<lparr>long_value = 3\<rparr>, 1 \<mapsto> Atomic_bool \<lparr>bool_value = 0\<rparr>]
   \<and> run [0 \<mapsto> Atomic_long \<lparr>long_value = 0 :: 64 word\<rparr>]
        (targets 0 [(0, Long_add 5), (1, Bool_add True), (0, Long_sub 2), (1, Bool_store False)])
     = Some [0 \<mapsto> Atomic_long \<lparr>long_value = 3\<rparr>]
   \<and> 2 \<notin> dom ([0 \<mapsto> Atomic_long \<lparr>long_value = 0\<rparr>, 1 \<mapsto> Atomic_bool \<lparr>bool_value = 0\<rparr>]
                 :: 64 word heap)
   \<and> c_sd_atomic_long_create
        [0 \<mapsto> Atomic_long \<lparr>long_value = 0 :: 64 word\<rparr>, 1 \<mapsto> Atomic_bool \<lparr>bool_value = 0\<rparr>]
        (Some 2) 7
     = Some (2, [0 \<mapsto> Atomic_long \<lparr>long_value = 0\<rparr>, 1 \<mapsto> Atomic_bool \<lparr>bool_value = 0\<rparr>,
                 2 \<mapsto> Atomic_long \<lparr>long_value = 7\<rparr>])"
  using cells_independent
    [of "[0 \<mapsto> Atomic_long \<lparr>long_value = 0 :: 64 word\<rparr>, 1 \<mapsto> Atomic_bool \<lparr>bool_value = 0\<rparr>]"
        0 "Long_add 5"
        "[0 \<mapsto> Atomic_long \<lparr>long_value = 5\<rparr>, 1 \<mapsto> Atomic_bool \<lparr>bool_value = 0\<rparr>]"
        "[0 \<mapsto> Atomic_long \<lparr>long_value = 0 :: 64 word\<rparr>, 1 \<mapsto> Atomic_bool \<lparr>bool_value = 0\<rparr>]"
        "[(0, Long_add 5), (1, Bool_add True), (0, Long_sub 2), (1, Bool_store False)]"
        "[0 \<mapsto> Atomic_long \<lparr>long_value = 3\<rparr>, 1 \<mapsto> Atomic_bool \<lparr>bool_value = 0\<rparr>]"
        "[0 \<mapsto> Atomic_long \<lparr>long_value = 0 :: 64 word\<rparr>]"
        0 2 7 True]
  by (simp add: targets_def c_sd_atomic_long_add_def c_sd_atomic_long_sub_def
      c_sd_atomic_bool_add_def c_sd_atomic_bool_store_def c_sd_atomic_long_create_def
      atomic_fetch_add_explicit_def atomic_fetch_sub_explicit_def atomic_store_explicit_def
      atomic_fetch_add_explicit_bool_def
      atomic_init_def long_at_def bool_at_def bool_to_byte_def byte_to_bool_def fun_upd_twist)

section \<open>What compareAndExchange gives back\<close>

text \<open>
  C9. When the comparison fails, \<open>atomic_compare_exchange_strong\<close> writes the value it
  found into the local \<open>expected_copy\<close>, and the function drops it: the caller gets
  false and the unchanged heap, and the flag is the same for any two values that both
  differ from \<open>expected\<close>. \<open>expected\<close> is passed by value; whatever the outcome, no
  address other than \<open>wrapper\<close> is written, so no variable of the caller is. The same
  holds for the boolean cell.
\<close>

theorem compare_and_exchange_returns_flag_only:
  fixes h h1 h2 :: "'w::len word heap" and g g1 g2 :: "'l heap"
  shows "(long_at h p = Some c \<longrightarrow> long_value c \<noteq> expected \<longrightarrow>
            atomic_compare_exchange_strong (long_value c) expected desired
              = (False, long_value c, long_value c)
          \<and> c_sd_atomic_long_compare_and_exchange h p expected desired = Some (False, h))
       \<and> (long_at h1 p = Some c1 \<longrightarrow> long_at h2 p = Some c2 \<longrightarrow>
            long_value c1 \<noteq> expected \<longrightarrow> long_value c2 \<noteq> expected \<longrightarrow>
            map_option fst (c_sd_atomic_long_compare_and_exchange h1 p expected desired)
              = map_option fst (c_sd_atomic_long_compare_and_exchange h2 p expected desired))
       \<and> (long_at h p = Some c \<longrightarrow> a \<noteq> p \<longrightarrow>
            map_option (\<lambda>r. snd r a) (c_sd_atomic_long_compare_and_exchange h p expected desired)
              = Some (h a))
       \<and> (bool_at g q = Some b \<longrightarrow> a \<noteq> q \<longrightarrow>
            map_option (\<lambda>r. snd r a) (c_sd_atomic_bool_compare_and_exchange g q e d)
              = Some (g a))
       \<and> (bool_at g q = Some b \<longrightarrow> bool_value b \<noteq> bool_to_byte e \<longrightarrow>
            atomic_compare_exchange_strong (bool_value b) (bool_to_byte e) (bool_to_byte d)
              = (False, bool_value b, bool_value b)
          \<and> c_sd_atomic_bool_compare_and_exchange g q e d = Some (False, g))
       \<and> (bool_at g1 q = Some b1 \<longrightarrow> bool_at g2 q = Some b2 \<longrightarrow>
            bool_value b1 \<noteq> bool_to_byte e \<longrightarrow> bool_value b2 \<noteq> bool_to_byte e \<longrightarrow>
            map_option fst (c_sd_atomic_bool_compare_and_exchange g1 q e d)
              = map_option fst (c_sd_atomic_bool_compare_and_exchange g2 q e d))"
proof -
  have long_fail:
    "c_sd_atomic_long_compare_and_exchange k p expected desired = Some (False, k)"
    if "long_at k p = Some x" and "long_value x \<noteq> expected"
    for k :: "'w word heap" and x
    using that by (simp add: long_cae_eq)
  have bool_fail:
    "c_sd_atomic_bool_compare_and_exchange k q e d = Some (False, k)"
    if "bool_at k q = Some x" and "bool_value x \<noteq> bool_to_byte e"
    for k :: "'l heap" and x
    using that by (simp add: bool_cae_eq)
  have long_frame:
    "map_option (\<lambda>r. snd r a) (c_sd_atomic_long_compare_and_exchange h p expected desired)
       = Some (h a)"
    if "long_at h p = Some c" and "a \<noteq> p"
    using that by (simp add: long_cae_eq)
  have bool_frame:
    "map_option (\<lambda>r. snd r a) (c_sd_atomic_bool_compare_and_exchange g q e d) = Some (g a)"
    if "bool_at g q = Some b" and "a \<noteq> q"
    using that by (simp add: bool_cae_eq)
  have copy_receives_observed:
    "atomic_compare_exchange_strong v w u = (False, v, v)" if "v \<noteq> w" for v w u :: 'x
    using that by (simp add: atomic_compare_exchange_strong_def)
  show ?thesis
    using long_fail bool_fail long_frame bool_frame
    by (simp add: copy_receives_observed)
qed

theorem compare_and_exchange_returns_flag_only_witness:
  "long_at [0 \<mapsto> Atomic_long \<lparr>long_value = 5 :: 64 word\<rparr>] 0 = Some \<lparr>long_value = 5\<rparr>
   \<and> long_at [0 \<mapsto> Atomic_long \<lparr>long_value = 6 :: 64 word\<rparr>] 0 = Some \<lparr>long_value = 6\<rparr>
   \<and> (5 :: 64 word) \<noteq> 7 \<and> (6 :: 64 word) \<noteq> 7 \<and> (1 :: nat) \<noteq> 0
   \<and> atomic_compare_exchange_strong (5 :: 64 word) 7 9 = (False, 5, 5)
   \<and> c_sd_atomic_long_compare_and_exchange [0 \<mapsto> Atomic_long \<lparr>long_value = 5 :: 64 word\<rparr>] 0 7 9
       = Some (False, [0 \<mapsto> Atomic_long \<lparr>long_value = 5\<rparr>])
   \<and> c_sd_atomic_long_compare_and_exchange [0 \<mapsto> Atomic_long \<lparr>long_value = 6 :: 64 word\<rparr>] 0 7 9
       = Some (False, [0 \<mapsto> Atomic_long \<lparr>long_value = 6\<rparr>])
   \<and> bool_at ([0 \<mapsto> Atomic_bool \<lparr>bool_value = 1\<rparr>] :: 64 word heap) 0 = Some \<lparr>bool_value = 1\<rparr>
   \<and> bool_at ([0 \<mapsto> Atomic_bool \<lparr>bool_value = 255\<rparr>] :: 64 word heap) 0 = Some \<lparr>bool_value = 255\<rparr>
   \<and> (1 :: 8 word) \<noteq> bool_to_byte False \<and> (255 :: 8 word) \<noteq> bool_to_byte False
   \<and> atomic_compare_exchange_strong (1 :: 8 word) (bool_to_byte False) (bool_to_byte True)
       = (False, 1, 1)
   \<and> c_sd_atomic_bool_compare_and_exchange
        ([0 \<mapsto> Atomic_bool \<lparr>bool_value = 1\<rparr>] :: 64 word heap) 0 False True
       = Some (False, [0 \<mapsto> Atomic_bool \<lparr>bool_value = 1\<rparr>])"
  using compare_and_exchange_returns_flag_only
    [of "[0 \<mapsto> Atomic_long \<lparr>long_value = 5 :: 64 word\<rparr>]" 0 "\<lparr>long_value = 5\<rparr>" 7 9
        "[0 \<mapsto> Atomic_long \<lparr>long_value = 5 :: 64 word\<rparr>]" "\<lparr>long_value = 5\<rparr>"
        "[0 \<mapsto> Atomic_long \<lparr>long_value = 6 :: 64 word\<rparr>]" "\<lparr>long_value = 6\<rparr>"
        1
        "[0 \<mapsto> Atomic_bool \<lparr>bool_value = 1\<rparr>] :: 64 word heap" 0 "\<lparr>bool_value = 1\<rparr>"
        False True
        "[0 \<mapsto> Atomic_bool \<lparr>bool_value = 1\<rparr>] :: 64 word heap" "\<lparr>bool_value = 1\<rparr>"
        "[0 \<mapsto> Atomic_bool \<lparr>bool_value = 255\<rparr>] :: 64 word heap" "\<lparr>bool_value = 255\<rparr>"]
  by (simp add: long_at_def bool_at_def bool_to_byte_def
      c_sd_atomic_long_compare_and_exchange_def atomic_compare_exchange_strong_def)

end
